theory Spec2Isabelle
  imports Main "HOL-Library.Word"
begin

section \<open>JavaScript strings\<close>

text \<open>
  A JavaScript string is a sequence of UTF-16 code units: \<open>s.length\<close> counts code units
  and \<open>s.slice(0, n)\<close> keeps the first \<open>n\<close> of them. The model is a list of 16-bit words.
  \<open>js\<close> writes an ASCII literal of the source as such a list.
\<close>

type_synonym jschar = "16 word"
type_synonym jsstring = "jschar list"

definition js :: "string \<Rightarrow> jsstring" where
  "js s = map (\<lambda>c. of_nat (of_char c)) s"

text \<open>The one non-ASCII literal of the source: the horizontal ellipsis, U+2026.\<close>

definition ellipsis :: jsstring where
  "ellipsis = [0x2026]"

section \<open>The reminder notification flow\<close>

subsection \<open>Data\<close>

text \<open>
  A reminder as delivered by the server: \<open>{id, title, content}\<close>. The id only ever occurs
  inside a template literal, so the model holds its rendering as text. A title or content
  that is \<open>null\<close> or missing is \<open>None\<close>; the empty string is \<open>Some []\<close>. Both are falsy.
\<close>

record reminder =
  r_id :: jsstring
  r_title :: "jsstring option"
  r_content :: "jsstring option"

datatype http_method = GET | POST

text \<open>
  A request as handed to \<open>fetch\<close>: the method, the URL and the \<open>credentials\<close> option when
  the caller passes one.
\<close>

record request =
  req_method :: http_method
  req_url :: jsstring
  req_credentials :: "jsstring option"

datatype permission = Default | Granted | Denied

record notification =
  n_title :: jsstring
  n_body :: jsstring
  n_icon :: jsstring

text \<open>
  A popup element attached to \<open>document.body\<close>. \<open>p_handle\<close> is the identity of the DOM
  node, \<open>p_note\<close> the \<open>noteId\<close> its click handlers close over, \<open>p_title\<close> and \<open>p_content\<close>
  the \<open>textContent\<close> of \<open>#popup-title\<close> and \<open>#popup-content\<close>. \<open>p_dismiss\<close> and
  \<open>p_mark_done\<close> say whether the \<open>onclick\<close> handler of the button has been installed.
\<close>

record popup =
  p_handle :: nat
  p_note :: jsstring
  p_title :: jsstring
  p_content :: jsstring
  p_dismiss :: bool
  p_mark_done :: bool

text \<open>A pending \<open>setTimeout(closePopup, delay)\<close>: the delay and the popup it closes over.\<close>

record timer =
  t_delay :: nat
  t_popup :: nat

text \<open>
  A \<open>fetch(url).then(callback)\<close> of \<open>showPopup\<close> whose answer has not arrived: the URL
  asked for, and the \<open>noteId\<close>, \<open>title\<close> and \<open>content\<close> the waiting callback closes over.
\<close>

record pending =
  pd_url :: jsstring
  pd_note :: jsstring
  pd_title :: "jsstring option"
  pd_content :: "jsstring option"

text \<open>
  The page as far as the notification code touches it. \<open>notif_api\<close> is \<open>None\<close> when
  \<open>"Notification" in window\<close> is false and the value of \<open>Notification.permission\<close>
  otherwise. \<open>pg_pending\<close> holds the fetches of the popup partial that are still
  unanswered, \<open>pg_console\<close> the first argument of every \<open>console.log\<close> and
  \<open>console.error\<close>.
\<close>

record page =
  notif_api :: "permission option"
  pg_body :: "popup list"
  pg_requests :: "request list"
  pg_notifications :: "notification list"
  pg_timers :: "timer list"
  pg_pending :: "pending list"
  pg_console :: "jsstring list"
  pg_fresh :: nat

text \<open>
  What the fetch of the popup partial delivers. \<open>Rejected\<close>: the promise rejects. \<open>Html t\<close>:
  the text arrives, and \<open>t\<close> names the first of the callback's five \<open>querySelector\<close>
  lookups that returns \<open>null\<close> (\<open>Complete\<close> when none does).
\<close>

datatype template =
  No_popup | No_title | No_content | No_dismiss | No_mark_done | Complete

datatype fetched = Rejected | Html template

subsection \<open>Displayed texts\<close>

text \<open>\<open>title || "Reminder"\<close>\<close>

definition titleText :: "jsstring option \<Rightarrow> jsstring" where
  "titleText title =
     (case title of
        None \<Rightarrow> js ''Reminder''
      | Some t \<Rightarrow> if t = [] then js ''Reminder'' else t)"

text \<open>
  \<open>content ? (content.length > 200 ? content.slice(0, 200) + "\<dots>" : content) : "No content"\<close>
\<close>

definition contentText :: "jsstring option \<Rightarrow> jsstring" where
  "contentText content =
     (case content of
        None \<Rightarrow> js ''No content''
      | Some c \<Rightarrow>
          if c = [] then js ''No content''
          else if length c > 200 then take 200 c @ ellipsis
          else c)"

subsection \<open>Primitive effects\<close>

definition console_log :: "jsstring \<Rightarrow> page \<Rightarrow> page" where
  "console_log s st = st\<lparr>pg_console := pg_console st @ [s]\<rparr>"

text \<open>\<open>fetch(url, {method})\<close>: no \<open>credentials\<close> option is passed.\<close>

definition fetch :: "jsstring \<Rightarrow> http_method \<Rightarrow> page \<Rightarrow> page" where
  "fetch url m st =
     st\<lparr>pg_requests := pg_requests st @
        [\<lparr>req_method = m, req_url = url, req_credentials = None\<rparr>]\<rparr>"

text \<open>
  \<open>fetch(url).then(...)\<close> as \<open>showPopup\<close> writes it: the GET request is sent and the
  callback, with the variables it closes over, waits for the answer.
\<close>

definition fetch_then ::
  "jsstring \<Rightarrow> jsstring \<Rightarrow> jsstring option \<Rightarrow> jsstring option \<Rightarrow> page \<Rightarrow> page" where
  "fetch_then url noteId title content st =
     (fetch url GET st)\<lparr>pg_pending := pg_pending st @
        [\<lparr>pd_url = url, pd_note = noteId, pd_title = title, pd_content = content\<rparr>]\<rparr>"

text \<open>\<open>safeFetch(url, options)\<close> is \<open>fetch(url, {credentials: 'same-origin', ...options})\<close>.\<close>

definition safeFetch :: "jsstring \<Rightarrow> http_method \<Rightarrow> page \<Rightarrow> page" where
  "safeFetch url m st =
     st\<lparr>pg_requests := pg_requests st @
        [\<lparr>req_method = m, req_url = url, req_credentials = Some (js ''same-origin'')\<rparr>]\<rparr>"

text \<open>
  \<open>new Notification(title || "Reminder", {body: ..., icon: "/static/favicon.ico"})\<close>, guarded
  by \<open>"Notification" in window && Notification.permission === "granted"\<close>.
\<close>

definition notify :: "jsstring option \<Rightarrow> jsstring option \<Rightarrow> page \<Rightarrow> page" where
  "notify title content st =
     (if notif_api st = Some Granted
      then st\<lparr>pg_notifications := pg_notifications st @
             [\<lparr>n_title = titleText title, n_body = contentText content,
               n_icon = js ''/static/favicon.ico''\<rparr>]\<rparr>
      else st)"

text \<open>\<open>closePopup = () => popup.remove()\<close>: detaches the node; no effect on a detached node.\<close>

definition closePopup :: "nat \<Rightarrow> page \<Rightarrow> page" where
  "closePopup h st = st\<lparr>pg_body := filter (\<lambda>p. p_handle p \<noteq> h) (pg_body st)\<rparr>"

text \<open>The timer fires: it leaves the pending list and runs \<open>closePopup\<close>.\<close>

definition timer_fires :: "timer \<Rightarrow> page \<Rightarrow> page" where
  "timer_fires t st = closePopup (t_popup t) (st\<lparr>pg_timers := remove1 t (pg_timers st)\<rparr>)"

subsection \<open>The stream variant (\<^verbatim>\<open>static/script.js\<close>)\<close>

text \<open>
  \<open>showPopup(noteId, title, content)\<close> up to the point where it returns: the browser
  notification, then the request for the partial (a relative URL here).
\<close>

definition showPopup_sse :: "jsstring \<Rightarrow> jsstring option \<Rightarrow> jsstring option \<Rightarrow> page \<Rightarrow> page" where
  "showPopup_sse noteId title content st =
     fetch_then (js ''partials/popup_partial.html'') noteId title content
       (notify title content st)"

text \<open>
  The callback of \<open>.then(html => ...)\<close> in \<open>showPopup\<close>: it builds the popup from the
  partial, fills in the two texts, appends the popup to the body, installs the two handlers
  and starts the two-minute timer.
  A lookup that returns \<open>null\<close> throws a \<open>TypeError\<close> at its first use, which the \<open>.catch\<close>
  of the chain logs; what was done before the throw stays done.
\<close>

definition showPopup_then_sse ::
  "jsstring \<Rightarrow> jsstring option \<Rightarrow> jsstring option \<Rightarrow> fetched \<Rightarrow> page \<Rightarrow> page" where
  "showPopup_then_sse noteId title content resp st =
     (case resp of
        Rejected \<Rightarrow> console_log (js ''Failed to load popup template:'') st
      | Html t \<Rightarrow>
          if t = No_popup \<or> t = No_title \<or> t = No_content
          then console_log (js ''Failed to load popup template:'') st
          else
            let h = pg_fresh st;
                p = \<lparr>p_handle = h, p_note = noteId,
                     p_title = titleText title, p_content = contentText content,
                     p_dismiss = (t = No_mark_done \<or> t = Complete),
                     p_mark_done = (t = Complete)\<rparr>;
                st1 = st\<lparr>pg_body := pg_body st @ [p], pg_fresh := Suc h\<rparr>
            in if t = Complete
               then st1\<lparr>pg_timers := pg_timers st1 @ [\<lparr>t_delay = 120000, t_popup = h\<rparr>]\<rparr>
               else console_log (js ''Failed to load popup template:'') st1)"

text \<open>
  The answer to a pending fetch of the partial arrives: the fetch is pending no longer and
  its callback runs, with the variables it closed over. Nothing happens for a fetch that
  was never sent.
\<close>

definition partial_arrives_sse :: "pending \<Rightarrow> fetched \<Rightarrow> page \<Rightarrow> page" where
  "partial_arrives_sse pd resp st =
     (if pd \<in> set (pg_pending st)
      then showPopup_then_sse (pd_note pd) (pd_title pd) (pd_content pd) resp
             (st\<lparr>pg_pending := remove1 pd (pg_pending st)\<rparr>)
      else st)"

text \<open>
  The \<open>.dismiss\<close> handler. A click reaches it only while the popup is in the document and
  the handler is installed.
\<close>

definition dismiss_sse :: "nat \<Rightarrow> page \<Rightarrow> page" where
  "dismiss_sse h st =
     (case find (\<lambda>p. p_handle p = h) (pg_body st) of
        None \<Rightarrow> st
      | Some p \<Rightarrow>
          if p_dismiss p
          then closePopup h (safeFetch (js ''/reminded/'' @ p_note p) POST st)
          else st)"

text \<open>
  The \<open>.mark-done\<close> handler, in the three steps of its promise chain. The click sends
  \<open>POST /done/{id}\<close>. When that settles, \<open>safeFetch\<close> rejects unless the response arrived
  with \<open>response.ok\<close>; on success the acknowledgment is sent, on failure the \<open>.catch\<close> logs and
  \<open>.finally\<close> closes the popup. When the acknowledgment settles, a failure is logged and the
  popup is closed.
\<close>

definition mark_done_sse :: "nat \<Rightarrow> page \<Rightarrow> page" where
  "mark_done_sse h st =
     (case find (\<lambda>p. p_handle p = h) (pg_body st) of
        None \<Rightarrow> st
      | Some p \<Rightarrow>
          if p_mark_done p then safeFetch (js ''/done/'' @ p_note p) POST st else st)"

definition mark_done_settled_sse :: "jsstring \<Rightarrow> nat \<Rightarrow> bool \<Rightarrow> page \<Rightarrow> page" where
  "mark_done_settled_sse noteId h done_ok st =
     (if done_ok then safeFetch (js ''/reminded/'' @ noteId) POST st
      else closePopup h (console_log (js ''Error marking note as done:'') st))"

definition mark_done_finally_sse :: "nat \<Rightarrow> bool \<Rightarrow> page \<Rightarrow> page" where
  "mark_done_finally_sse h reminded_ok st =
     closePopup h
       (if reminded_ok then st else console_log (js ''Error marking note as done:'') st)"

text \<open>
  A message parsed from \<open>event.data\<close>: its \<open>type\<close>, and its \<open>data\<close> when that is an array
  of reminders. A missing property is \<open>None\<close>.
\<close>

record message =
  m_type :: "jsstring option"
  m_data :: "reminder list option"

text \<open>The body of \<open>message.data.forEach(reminder => ...)\<close>.\<close>

definition remind_sse :: "page \<Rightarrow> reminder \<Rightarrow> page" where
  "remind_sse st r =
     safeFetch (js ''/reminded/'' @ r_id r) POST
       (showPopup_sse (r_id r) (r_title r) (r_content r) st)"

text \<open>
  \<open>eventSource.onmessage\<close>. The argument is \<open>None\<close> when \<open>JSON.parse\<close> throws or yields a
  value whose \<open>type\<close> cannot be read; the handler then ends with nothing done. A reminders
  message without an array throws at \<open>forEach\<close>, after the log line.
\<close>

definition onmessage :: "message option \<Rightarrow> page \<Rightarrow> page" where
  "onmessage ev st =
     (case ev of
        None \<Rightarrow> st
      | Some m \<Rightarrow>
          if m_type m = Some (js ''connected'')
          then console_log (js ''Notification stream connected successfully'') st
          else if m_type m = Some (js ''heartbeat'')
          then console_log (js ''Heartbeat received'') st
          else if m_type m = Some (js ''reminders'')
          then (case m_data m of
                  None \<Rightarrow> console_log (js ''Received reminders from server:'') st
                | Some rs \<Rightarrow>
                    foldl remind_sse (console_log (js ''Received reminders from server:'') st) rs)
          else if m_type m = Some (js ''error'')
          then console_log (js ''Error from notification stream:'') st
          else st)"

subsection \<open>The polling variant (the second script)\<close>

text \<open>\<open>showPopup\<close> up to its return: only the request for the partial (an absolute URL here).\<close>

definition showPopup_poll :: "jsstring \<Rightarrow> jsstring option \<Rightarrow> jsstring option \<Rightarrow> page \<Rightarrow> page" where
  "showPopup_poll noteId title content st =
     fetch_then (js ''/partials/popup_partial.html'') noteId title content st"

text \<open>
  The callback of \<open>.then(html => ...)\<close> in this script's \<open>showPopup\<close>, with the same
  order of lookups, texts, handlers and timer.
\<close>

definition showPopup_then_poll ::
  "jsstring \<Rightarrow> jsstring option \<Rightarrow> jsstring option \<Rightarrow> fetched \<Rightarrow> page \<Rightarrow> page" where
  "showPopup_then_poll noteId title content resp st =
     (case resp of
        Rejected \<Rightarrow> console_log (js ''Failed to load popup template:'') st
      | Html t \<Rightarrow>
          if t = No_popup \<or> t = No_title \<or> t = No_content
          then console_log (js ''Failed to load popup template:'') st
          else
            let h = pg_fresh st;
                p = \<lparr>p_handle = h, p_note = noteId,
                     p_title = titleText title, p_content = contentText content,
                     p_dismiss = (t = No_mark_done \<or> t = Complete),
                     p_mark_done = (t = Complete)\<rparr>;
                st1 = st\<lparr>pg_body := pg_body st @ [p], pg_fresh := Suc h\<rparr>
            in if t = Complete
               then st1\<lparr>pg_timers := pg_timers st1 @ [\<lparr>t_delay = 120000, t_popup = h\<rparr>]\<rparr>
               else console_log (js ''Failed to load popup template:'') st1)"

text \<open>The answer to a pending fetch of the partial arrives, in this script.\<close>

definition partial_arrives_poll :: "pending \<Rightarrow> fetched \<Rightarrow> page \<Rightarrow> page" where
  "partial_arrives_poll pd resp st =
     (if pd \<in> set (pg_pending st)
      then showPopup_then_poll (pd_note pd) (pd_title pd) (pd_content pd) resp
             (st\<lparr>pg_pending := remove1 pd (pg_pending st)\<rparr>)
      else st)"

definition dismiss_poll :: "nat \<Rightarrow> page \<Rightarrow> page" where
  "dismiss_poll h st =
     (case find (\<lambda>p. p_handle p = h) (pg_body st) of
        None \<Rightarrow> st
      | Some p \<Rightarrow>
          if p_dismiss p
          then closePopup h (fetch (js ''/reminded/'' @ p_note p) POST st)
          else st)"

text \<open>
  The \<open>.mark-done\<close> chain with plain \<open>fetch\<close>, which rejects only when no response arrives:
  \<open>done_ok\<close> and \<open>reminded_ok\<close> say that a response arrived, whatever its status.
\<close>

definition mark_done_poll :: "nat \<Rightarrow> page \<Rightarrow> page" where
  "mark_done_poll h st =
     (case find (\<lambda>p. p_handle p = h) (pg_body st) of
        None \<Rightarrow> st
      | Some p \<Rightarrow>
          if p_mark_done p then fetch (js ''/done/'' @ p_note p) POST st else st)"

definition mark_done_settled_poll :: "jsstring \<Rightarrow> nat \<Rightarrow> bool \<Rightarrow> page \<Rightarrow> page" where
  "mark_done_settled_poll noteId h done_ok st =
     (if done_ok then fetch (js ''/reminded/'' @ noteId) POST st
      else closePopup h (console_log (js ''Error marking note as done:'') st))"

definition mark_done_finally_poll :: "nat \<Rightarrow> bool \<Rightarrow> page \<Rightarrow> page" where
  "mark_done_finally_poll h reminded_ok st =
     closePopup h
       (if reminded_ok then st else console_log (js ''Error marking note as done:'') st)"

text \<open>The body of \<open>reminders.forEach(reminder => ...)\<close>.\<close>

definition remind_poll :: "page \<Rightarrow> reminder \<Rightarrow> page" where
  "remind_poll st r =
     fetch (js ''/reminded/'' @ r_id r) POST
       (showPopup_poll (r_id r) (r_title r) (r_content r)
          (notify (r_title r) (r_content r) st))"

text \<open>
  \<open>checkForReminders\<close>: the request, and the callback on its outcome. The outcome is
  \<open>Some rs\<close> when the body is the array \<open>rs\<close>, and \<open>Some []\<close> also when it is any other
  JSON value without a positive \<open>length\<close> (a number, a boolean, an object with no such
  property, the empty string): the guard \<open>reminders.length > 0\<close> is false on it as on the
  empty array, and nothing is done. The outcome is \<open>None\<close> when something throws, which the
  \<open>.catch\<close> logs: the fetch rejects, the body is not JSON, the body is \<open>null\<close>, or it has a
  positive \<open>length\<close> without being an array, so that \<open>forEach\<close> is not a function.
\<close>

definition checkForReminders :: "page \<Rightarrow> page" where
  "checkForReminders st = fetch (js ''/get_reminders'') GET st"

definition checkForReminders_then :: "reminder list option \<Rightarrow> page \<Rightarrow> page" where
  "checkForReminders_then resp st =
     (case resp of
        None \<Rightarrow> console_log (js ''Error checking reminders:'') st
      | Some reminders \<Rightarrow>
          if length reminders > 0 then foldl remind_poll st reminders else st)"

text \<open>A page on which nothing has happened yet.\<close>

definition page0 :: "permission option \<Rightarrow> page" where
  "page0 perm =
     \<lparr>notif_api = perm, pg_body = [], pg_requests = [], pg_notifications = [],
      pg_timers = [], pg_pending = [], pg_console = [], pg_fresh = 0\<rparr>"


subsection \<open>Observations\<close>

text \<open>The message \<open>{type: 'reminders', data: rs}\<close>.\<close>

definition reminders_message :: "reminder list \<Rightarrow> message" where
  "reminders_message rs = \<lparr>m_type = Some (js ''reminders''), m_data = Some rs\<rparr>"

text \<open>The POST requests issued so far, each as method and URL, in order.\<close>

definition post_requests :: "page \<Rightarrow> (http_method \<times> jsstring) list" where
  "post_requests st =
     map (\<lambda>q. (req_method q, req_url q)) (filter (\<lambda>q. req_method q = POST) (pg_requests st))"

text \<open>The title and content texts of the popups in the body, in order.\<close>

definition popup_texts :: "page \<Rightarrow> (jsstring \<times> jsstring) list" where
  "popup_texts st = map (\<lambda>p. (p_title p, p_content p)) (pg_body st)"

text \<open>How many times \<open>POST /reminded/{i}\<close> has been issued so far.\<close>

definition acks :: "jsstring \<Rightarrow> page \<Rightarrow> nat" where
  "acks i st =
     length (filter (\<lambda>q. req_method q = POST \<and> req_url q = js ''/reminded/'' @ i)
               (pg_requests st))"

text \<open>
  Node identities are handed out in increasing order: every popup in the body and every
  pending timer refers to a node created earlier.
\<close>

definition handles_fresh :: "page \<Rightarrow> bool" where
  "handles_fresh st =
     (list_all (\<lambda>p. p_handle p < pg_fresh st) (pg_body st) \<and>
      list_all (\<lambda>t. t_popup t < pg_fresh st) (pg_timers st))"

section \<open>Themes\<close>

text \<open>\<open>localStorage\<close>: \<open>getItem\<close> of a missing key is \<open>null\<close>, here \<open>None\<close>.\<close>

type_synonym storage = "jsstring \<rightharpoonup> jsstring"

subsection \<open>The multi-theme variant (\<^verbatim>\<open>static/script.js\<close>)\<close>

record theme_entry =
  te_desktop :: jsstring
  te_mobile :: jsstring

definition themes :: "(jsstring \<times> theme_entry) list" where
  "themes =
     [(js ''default'',
         \<lparr>te_desktop = js ''/static/style1.css'', te_mobile = js ''/static/style1_mobile.css''\<rparr>),
      (js ''matrix'',
         \<lparr>te_desktop = js ''/static/style2.css'', te_mobile = js ''/static/style2_mobile.css''\<rparr>),
      (js ''light'',
         \<lparr>te_desktop = js ''/static/style3.css'', te_mobile = js ''/static/style3_mobile.css''\<rparr>)]"

definition themeOrder :: "jsstring list" where
  "themeOrder = [js ''matrix'', js ''light'']"

text \<open>
  \<open>themes[name]\<close> on an object literal also finds what the literal inherits from
  \<open>Object.prototype\<close>: a function or object, truthy, with neither a \<open>desktop\<close> nor a
  \<open>mobile\<close> property.
\<close>

definition object_prototype :: "jsstring list" where
  "object_prototype =
     [js ''constructor'', js ''__defineGetter__'', js ''__defineSetter__'',
      js ''hasOwnProperty'', js ''__lookupGetter__'', js ''__lookupSetter__'',
      js ''isPrototypeOf'', js ''propertyIsEnumerable'', js ''toString'', js ''valueOf'',
      js ''__proto__'', js ''toLocaleString'']"

datatype property = Own theme_entry | Inherited | Undefined

definition themes_get :: "jsstring \<Rightarrow> property" where
  "themes_get name =
     (case map_of themes name of
        Some e \<Rightarrow> Own e
      | None \<Rightarrow> if name \<in> set object_prototype then Inherited else Undefined)"

text \<open>
  The page after \<open>initTheme\<close> has found both elements: the \<open>href\<close> of \<open>#theme-link\<close>, the
  storage and the variable \<open>currentTheme\<close>.
\<close>

record theme_page =
  themeLink_href :: jsstring
  localStorage :: storage
  currentTheme :: jsstring

text \<open>
  \<open>applyTheme(name)\<close>; \<open>is_mobile\<close> is what \<open>isMobileDevice()\<close> returns at the call.
  Assigning \<open>undefined\<close> to \<open>href\<close> stores the text "undefined".
\<close>

definition applyTheme :: "bool \<Rightarrow> jsstring \<Rightarrow> theme_page \<Rightarrow> theme_page" where
  "applyTheme is_mobile name0 st =
     (let name = (if themes_get name0 = Undefined then js ''matrix'' else name0);
          selected = (case themes_get name of
                        Own e \<Rightarrow> if is_mobile then te_mobile e else te_desktop e
                      | Inherited \<Rightarrow> js ''undefined''
                      | Undefined \<Rightarrow> js ''undefined'')
      in st\<lparr>themeLink_href := selected,
            localStorage := (localStorage st)(js ''themeName'' \<mapsto> name)\<rparr>)"

text \<open>
  \<open>initTheme\<close> on a page load: \<open>themeLink\<close> is the \<open>href\<close> of \<open>#theme-link\<close> when the
  element exists, \<open>switchButton\<close> says whether \<open>#theme-switch\<close> exists. The result is \<open>None\<close>
  when the function returns early, with nothing read, written or installed.
\<close>

definition initTheme_multi ::
  "jsstring option \<Rightarrow> bool \<Rightarrow> bool \<Rightarrow> storage \<Rightarrow> theme_page option" where
  "initTheme_multi themeLink switchButton is_mobile store =
     (case themeLink of
        None \<Rightarrow> None
      | Some href \<Rightarrow>
          if \<not> switchButton then None
          else
            let cur = (case store (js ''themeName'') of
                         None \<Rightarrow> js ''matrix''
                       | Some v \<Rightarrow> if v = [] then js ''matrix'' else v)
            in Some (applyTheme is_mobile cur
                 \<lparr>themeLink_href = href, localStorage = store, currentTheme = cur\<rparr>))"

text \<open>\<open>Array.prototype.indexOf\<close>: the first index of the element, or \<open>-1\<close>.\<close>

fun indexOf :: "'a list \<Rightarrow> 'a \<Rightarrow> int" where
  "indexOf [] x = - 1"
| "indexOf (y # ys) x =
     (if y = x then 0 else (let i = indexOf ys x in if i < 0 then - 1 else i + 1))"

text \<open>
  The click handler of \<open>#theme-switch\<close>. \<open>idx + 1\<close> is never negative, so the remainder of
  JavaScript's \<open>%\<close> is that of \<open>mod\<close>.
\<close>

definition theme_click :: "bool \<Rightarrow> theme_page \<Rightarrow> theme_page" where
  "theme_click is_mobile st =
     (let idx = indexOf themeOrder (currentTheme st);
          next = (idx + 1) mod int (length themeOrder);
          cur = themeOrder ! nat next
      in applyTheme is_mobile cur (st\<lparr>currentTheme := cur\<rparr>))"

text \<open>The \<open>resize\<close> handler.\<close>

definition theme_resize :: "bool \<Rightarrow> theme_page \<Rightarrow> theme_page" where
  "theme_resize is_mobile st = applyTheme is_mobile (currentTheme st) st"

subsection \<open>The dark-toggle variant (the second script)\<close>

text \<open>A \<open>classList\<close>: a list of distinct tokens.\<close>

definition classList_add :: "jsstring \<Rightarrow> jsstring list \<Rightarrow> jsstring list" where
  "classList_add c cs = (if c \<in> set cs then cs else cs @ [c])"

definition classList_remove :: "jsstring \<Rightarrow> jsstring list \<Rightarrow> jsstring list" where
  "classList_remove c cs = filter (\<lambda>x. x \<noteq> c) cs"

definition classList_toggle :: "jsstring \<Rightarrow> jsstring list \<Rightarrow> jsstring list" where
  "classList_toggle c cs = (if c \<in> set cs then classList_remove c cs else cs @ [c])"

record dark_page =
  body_classes :: "jsstring list"
  dk_storage :: storage

text \<open>\<open>initTheme\<close>; \<open>switchButton\<close> says whether \<open>#theme-switch\<close> exists.\<close>

definition initTheme_dark :: "bool \<Rightarrow> dark_page \<Rightarrow> dark_page" where
  "initTheme_dark switchButton st =
     (if \<not> switchButton then st
      else if dk_storage st (js ''theme'') = Some (js ''dark'')
      then st\<lparr>body_classes := classList_add (js ''dark-theme'') (body_classes st)\<rparr>
      else st)"

text \<open>The click handler of \<open>#theme-switch\<close>.\<close>

definition dark_click :: "dark_page \<Rightarrow> dark_page" where
  "dark_click st =
     (let cs = classList_toggle (js ''dark-theme'') (body_classes st)
      in st\<lparr>body_classes := cs,
            dk_storage := (dk_storage st)(js ''theme'' \<mapsto>
               (if js ''dark-theme'' \<in> set cs then js ''dark'' else js ''light''))\<rparr>)"

text \<open>
  A page load: the body has the classes of the served document, the storage is what the
  last page left, and \<open>initTheme\<close> runs with the button present.
\<close>

definition dark_load :: "jsstring list \<Rightarrow> storage \<Rightarrow> dark_page" where
  "dark_load html_classes store =
     initTheme_dark True \<lparr>body_classes = html_classes, dk_storage = store\<rparr>"

section \<open>The view toggle (the second script)\<close>

text \<open>
  How a handler ends: normally, or by a \<open>TypeError\<close> that nothing catches. Either way the
  page is left as the handler's assignments up to that point made it.
\<close>

datatype 'a completion = Normal 'a | Thrown 'a

fun state_of :: "'a completion \<Rightarrow> 'a" where
  "state_of (Normal s) = s"
| "state_of (Thrown s) = s"

text \<open>Assigning to \<open>textContent\<close>: \<open>null\<close> (a missing attribute read before) gives the empty text.\<close>

definition textContent_of :: "jsstring option \<Rightarrow> jsstring" where
  "textContent_of v = (case v of None \<Rightarrow> [] | Some s \<Rightarrow> s)"

text \<open>
  The page after \<open>initNoteToggle\<close> has found the button and the two containers: the
  variable \<open>showingCompleted\<close>, the \<open>style.display\<close> of each container, the label of the
  button, and the value of \<open>#search\<close> (\<open>None\<close> when the page has no such element).
\<close>

record toggle_page =
  showingCompleted :: bool
  active_display :: jsstring
  completed_display :: jsstring
  toggle_text :: jsstring
  search_value :: "jsstring option"

text \<open>
  \<open>switchView\<close>; the two arguments are the values of the button's \<open>data-view-active\<close> and
  \<open>data-view-completed\<close> attributes, read once by \<open>initNoteToggle\<close>.
\<close>

definition switchView ::
  "jsstring option \<Rightarrow> jsstring option \<Rightarrow> toggle_page \<Rightarrow> toggle_page completion" where
  "switchView viewActiveText viewCompletedText st =
     (let st1 = st\<lparr>showingCompleted := \<not> showingCompleted st\<rparr>;
          st2 = (if showingCompleted st1
                 then st1\<lparr>active_display := js ''none'',
                          completed_display := js ''block'',
                          toggle_text := textContent_of viewActiveText\<rparr>
                 else st1\<lparr>active_display := js ''block'',
                          completed_display := js ''none'',
                          toggle_text := textContent_of viewCompletedText\<rparr>)
      in case search_value st2 of
           None \<Rightarrow> Thrown st2
         | Some v \<Rightarrow> Normal (st2\<lparr>search_value := Some []\<rparr>))"

section \<open>File upload (the second script)\<close>

text \<open>A request carrying a \<open>FormData\<close>: the URL and the files appended under \<open>file\<close>.\<close>

record 'f upload_request =
  up_url :: jsstring
  up_files :: "'f list"

subsection \<open>The file-attachment-area variant\<close>

text \<open>
  The element \<open>#upload-progress-{noteId}\<close>: its \<open>style.display\<close>, the \<open>style.width\<close> of
  its \<open>.progress-fill\<close> child and the text of its \<open>.progress-text\<close> child; a child that
  the container lacks is \<open>None\<close>.
\<close>

record progress =
  pr_display :: jsstring
  pr_fill :: "jsstring option"
  pr_text :: "jsstring option"

text \<open>A \<open>div.file-item\<close>: its \<open>data-file-id\<close>, the text of its name and the link's \<open>href\<close>.\<close>

record file_item =
  fi_file_id :: jsstring
  fi_name :: jsstring
  fi_href :: jsstring

text \<open>A pending \<open>setTimeout\<close> that hides the progress container of a note.\<close>

record hide_timer =
  ht_delay :: nat
  ht_note :: jsstring

text \<open>
  The page: the progress container and the children of \<open>#attached-files-{noteId}\<close> for
  each note id that has such an element, the requests sent and the timers pending.
\<close>

record 'f attach_page =
  ap_progress :: "jsstring \<rightharpoonup> progress"
  ap_attached :: "jsstring \<rightharpoonup> file_item list"
  ap_requests :: "'f upload_request list"
  ap_timers :: "hide_timer list"
  ap_console :: "jsstring list"

text \<open>The parsed body of the response, with \<open>file_id\<close> as a template literal renders it.\<close>

record upload_data =
  ud_ok :: bool
  ud_file_id :: jsstring
  ud_filename :: jsstring

text \<open>\<open>Failed\<close>: the fetch rejects, or the body is not a JSON object.\<close>

datatype upload_response = Failed | Json upload_data

text \<open>
  Assignments through the references the closures hold; a missing child stays missing. The
  elements are looked up by note id at each step: no element of the page is created or
  removed between the call and the response.
\<close>

definition set_progress :: "jsstring \<Rightarrow> (progress \<Rightarrow> progress) \<Rightarrow> 'f attach_page \<Rightarrow> 'f attach_page" where
  "set_progress noteId f st =
     st\<lparr>ap_progress := (ap_progress st)(noteId := map_option f (ap_progress st noteId))\<rparr>"

definition set_width :: "jsstring \<Rightarrow> progress \<Rightarrow> progress" where
  "set_width w p = p\<lparr>pr_fill := map_option (\<lambda>_. w) (pr_fill p)\<rparr>"

definition set_text :: "jsstring \<Rightarrow> progress \<Rightarrow> progress" where
  "set_text t p = p\<lparr>pr_text := map_option (\<lambda>_. t) (pr_text p)\<rparr>"

definition set_display :: "jsstring \<Rightarrow> progress \<Rightarrow> progress" where
  "set_display d p = p\<lparr>pr_display := d\<rparr>"

text \<open>
  \<open>handleFiles(files, noteId)\<close> up to its return. Reading a property of \<open>null\<close> throws: the
  container at \<open>querySelector\<close>, before anything is assigned; the bar after the container
  is shown; the text after the width is reset.
\<close>

definition handleFiles :: "'f list \<Rightarrow> jsstring \<Rightarrow> 'f attach_page \<Rightarrow> 'f attach_page completion" where
  "handleFiles files noteId st =
     (if length files = 0 then Normal st
      else case ap_progress st noteId of
        None \<Rightarrow> Thrown st
      | Some pc \<Rightarrow>
          let st1 = set_progress noteId (set_display (js ''block'')) st in
          if pr_fill pc = None then Thrown st1
          else
            let st2 = set_progress noteId (set_width (js ''0%'')) st1 in
            if pr_text pc = None then Thrown st2
            else
              let st3 = set_progress noteId (set_text (js ''Uploading...'')) st2
              in Normal (st3\<lparr>ap_requests := ap_requests st3 @
                   [\<lparr>up_url = js ''/upload_file/'' @ noteId, up_files = files\<rparr>]\<rparr>))"

text \<open>The \<open>.catch\<close> callback.\<close>

definition handleFiles_catch :: "jsstring \<Rightarrow> 'f attach_page \<Rightarrow> 'f attach_page" where
  "handleFiles_catch noteId st =
     (let st1 = st\<lparr>ap_console := ap_console st @ [js ''Error uploading file:'']\<rparr>;
          st2 = set_progress noteId (set_width (js ''0%'')) st1;
          st3 = set_progress noteId (set_text (js ''Upload failed. Please try again.'')) st2
      in st3\<lparr>ap_timers := ap_timers st3 @ [\<lparr>ht_delay = 3000, ht_note = noteId\<rparr>]\<rparr>)"

text \<open>
  The chain on the response. With \<open>data.ok\<close> the bar and the text are set first; appending
  to a missing \<open>#attached-files-{noteId}\<close> then throws, and the \<open>.catch\<close> runs as for a
  failed upload.
\<close>

definition handleFiles_then :: "jsstring \<Rightarrow> upload_response \<Rightarrow> 'f attach_page \<Rightarrow> 'f attach_page" where
  "handleFiles_then noteId resp st =
     (case resp of
        Failed \<Rightarrow> handleFiles_catch noteId st
      | Json data \<Rightarrow>
          if ud_ok data then
            let st1 = set_progress noteId (set_width (js ''100%'')) st;
                st2 = set_progress noteId (set_text (js ''Upload complete!'')) st1;
                fileItem = \<lparr>fi_file_id = ud_file_id data, fi_name = ud_filename data,
                            fi_href = js ''/download_file/'' @ ud_file_id data\<rparr>
            in case ap_attached st2 noteId of
                 None \<Rightarrow> handleFiles_catch noteId st2
               | Some items \<Rightarrow>
                   st2\<lparr>ap_attached := (ap_attached st2)(noteId \<mapsto> items @ [fileItem]),
                       ap_timers := ap_timers st2 @ [\<lparr>ht_delay = 1500, ht_note = noteId\<rparr>]\<rparr>
          else handleFiles_catch noteId st)"

text \<open>A hide timer fires.\<close>

definition hide_fires :: "hide_timer \<Rightarrow> 'f attach_page \<Rightarrow> 'f attach_page" where
  "hide_fires t st =
     set_progress (ht_note t) (set_display (js ''none''))
       (st\<lparr>ap_timers := remove1 t (ap_timers st)\<rparr>)"

subsection \<open>The dropzone variant\<close>

record file_entry =
  fe_href :: jsstring
  fe_text :: jsstring

text \<open>
  The zone: its \<open>classList\<close>; its parent's \<open>.note-files\<close> element (\<open>None\<close>: the zone has no
  parent; \<open>Some None\<close>: the parent has no such element); the requests sent, the alerts shown,
  the number of calls of \<open>location.reload()\<close> and of \<open>console.error\<close>.
\<close>

record 'f zone_page =
  zn_classes :: "jsstring list"
  zn_note_files :: "file_entry list option option"
  zn_requests :: "'f upload_request list"
  zn_alerts :: "jsstring list"
  zn_reloads :: nat
  zn_errors :: nat

text \<open>
  The parsed body. \<open>dz_ok\<close> says whether \<open>data.ok\<close> is truthy. \<open>dz_error\<close> and \<open>dz_file_id\<close>
  are \<open>None\<close> when the property is falsy (missing, \<open>null\<close>, \<open>false\<close>, \<open>0\<close>, the empty
  string), and hold the text that \<open>alert\<close> or the template literal makes of a truthy value
  otherwise. \<open>dz_filename\<close> is the text that the assignment to \<open>textContent\<close> leaves. A
  body that is a number, a boolean or a string has none of the properties.
\<close>

record dropzone_data =
  dz_ok :: bool
  dz_error :: "jsstring option"
  dz_file_id :: "jsstring option"
  dz_filename :: jsstring

text \<open>
  How the two awaits end. \<open>Fetch_rejected\<close>: no response. \<open>Body_invalid\<close>: \<open>res.json()\<close>
  rejects, or yields \<open>null\<close>. \<open>Body res_ok data\<close>: a response, with the value of \<open>res.ok\<close>
  and any other parsed body.
\<close>

datatype dropzone_outcome = Fetch_rejected | Body_invalid | Body bool dropzone_data

text \<open>\<open>uploadFile\<close> up to the first \<open>await\<close>: the class, then the request.\<close>

definition uploadFile_enter :: "'f zone_page \<Rightarrow> 'f zone_page" where
  "uploadFile_enter st = st\<lparr>zn_classes := classList_add (js ''uploading'') (zn_classes st)\<rparr>"

definition uploadFile_fetch :: "jsstring \<Rightarrow> 'f \<Rightarrow> 'f zone_page \<Rightarrow> 'f zone_page" where
  "uploadFile_fetch noteId file st =
     st\<lparr>zn_requests := zn_requests st @
        [\<lparr>up_url = js ''/upload_file/'' @ noteId, up_files = [file]\<rparr>]\<rparr>"

definition uploadFile_start :: "jsstring \<Rightarrow> 'f \<Rightarrow> 'f zone_page \<Rightarrow> 'f zone_page" where
  "uploadFile_start noteId file st = uploadFile_fetch noteId file (uploadFile_enter st)"

text \<open>The \<open>catch\<close> block and the \<open>finally\<close> block.\<close>

definition uploadFile_catch :: "'f zone_page \<Rightarrow> 'f zone_page" where
  "uploadFile_catch st =
     st\<lparr>zn_errors := Suc (zn_errors st),
        zn_alerts := zn_alerts st @ [js ''Upload error'']\<rparr>"

definition uploadFile_finally :: "'f zone_page \<Rightarrow> 'f zone_page" where
  "uploadFile_finally st =
     st\<lparr>zn_classes := classList_remove (js ''uploading'') (zn_classes st)\<rparr>"

text \<open>
  The rest of the \<open>try\<close> block once the awaits have ended, with \<open>catch\<close> and \<open>finally\<close>.
  \<open>data.file_id || ""\<close> and the later assignment give the same \<open>href\<close>.
\<close>

definition uploadFile_settle :: "dropzone_outcome \<Rightarrow> 'f zone_page \<Rightarrow> 'f zone_page" where
  "uploadFile_settle outcome st =
     uploadFile_finally
       (case outcome of
          Fetch_rejected \<Rightarrow> uploadFile_catch st
        | Body_invalid \<Rightarrow> uploadFile_catch st
        | Body res_ok data \<Rightarrow>
            if res_ok \<and> dz_ok data then
              (case zn_note_files st of
                 None \<Rightarrow> uploadFile_catch st
               | Some None \<Rightarrow> st\<lparr>zn_reloads := Suc (zn_reloads st)\<rparr>
               | Some (Some entries) \<Rightarrow>
                   st\<lparr>zn_note_files := Some (Some
                       (\<lparr>fe_href = js ''/download_file/'' @
                            (case dz_file_id data of None \<Rightarrow> [] | Some i \<Rightarrow> i),
                         fe_text = dz_filename data\<rparr> # entries))\<rparr>)
            else st\<lparr>zn_alerts := zn_alerts st @
                   [case dz_error data of
                      None \<Rightarrow> js ''Upload failed''
                    | Some e \<Rightarrow> e]\<rparr>)"

section \<open>Sample pages\<close>

text \<open>Small concrete pages on which the properties below are run.\<close>

definition theme0 :: theme_page where
  "theme0 = \<lparr>themeLink_href = [], localStorage = Map.empty, currentTheme = js ''matrix''\<rparr>"

definition dark0 :: dark_page where
  "dark0 = \<lparr>body_classes = [], dk_storage = Map.empty\<rparr>"

definition toggle0 :: toggle_page where
  "toggle0 =
     \<lparr>showingCompleted = False, active_display = [], completed_display = [],
      toggle_text = [], search_value = Some (js ''abc'')\<rparr>"

definition attach0 :: "jsstring attach_page" where
  "attach0 =
     \<lparr>ap_progress =
        [js ''5'' \<mapsto> \<lparr>pr_display = js ''none'', pr_fill = Some [], pr_text = Some []\<rparr>],
      ap_attached = [js ''5'' \<mapsto> []],
      ap_requests = [], ap_timers = [], ap_console = []\<rparr>"

section \<open>Properties of the notification flow\<close>

lemmas effect_defs =
  console_log_def fetch_def fetch_then_def safeFetch_def notify_def closePopup_def

lemma showPopup_then_sse_body:
  "pg_body (showPopup_then_sse n title content (Html Complete) st) =
     pg_body st @ [\<lparr>p_handle = pg_fresh st, p_note = n, p_title = titleText title,
                    p_content = contentText content, p_dismiss = True, p_mark_done = True\<rparr>]"
  by (simp add: showPopup_then_sse_def Let_def)

lemma showPopup_then_poll_body:
  "pg_body (showPopup_then_poll n title content (Html Complete) st) =
     pg_body st @ [\<lparr>p_handle = pg_fresh st, p_note = n, p_title = titleText title,
                    p_content = contentText content, p_dismiss = True, p_mark_done = True\<rparr>]"
  by (simp add: showPopup_then_poll_def Let_def)

lemma showPopup_sse_notification:
  "notif_api st = Some Granted \<Longrightarrow>
   pg_notifications (showPopup_sse n title content st) =
     pg_notifications st @ [\<lparr>n_title = titleText title, n_body = contentText content,
                             n_icon = js ''/static/favicon.ico''\<rparr>]"
  by (simp add: showPopup_sse_def effect_defs)

lemma remind_poll_notification:
  "notif_api st = Some Granted \<Longrightarrow>
   pg_notifications (remind_poll st r) =
     pg_notifications st @ [\<lparr>n_title = titleText (r_title r), n_body = contentText (r_content r),
                             n_icon = js ''/static/favicon.ico''\<rparr>]"
  by (simp add: remind_poll_def showPopup_poll_def effect_defs)

text \<open>
  C4. The popup that either script appends for a reminder, and the browser notification
  that either script raises when permission is granted, carry as body text the content
  itself when it is non-empty and at most 200 code units long, its first 200 code units
  followed by the ellipsis when it is longer, and "No content" when it is empty or absent;
  as title the reminder's title when it is non-empty and "Reminder" otherwise.
\<close>

theorem displayed_texts:
  assumes shown: "(shown_title, shown_body) \<in> set
      [(let p = last (pg_body (showPopup_then_sse n title content (Html Complete) st))
        in (p_title p, p_content p)),
       (let p = last (pg_body (showPopup_then_poll n title content (Html Complete) st))
        in (p_title p, p_content p)),
       (let x = last (pg_notifications
                (showPopup_sse n title content (st\<lparr>notif_api := Some Granted\<rparr>)))
        in (n_title x, n_body x)),
       (let x = last (pg_notifications
                (remind_poll (st\<lparr>notif_api := Some Granted\<rparr>)
                   \<lparr>r_id = n, r_title = title, r_content = content\<rparr>))
        in (n_title x, n_body x))]"
  shows "(\<forall>c. content = Some c \<and> c \<noteq> [] \<and> length c \<le> 200 \<longrightarrow> shown_body = c) \<and>
         (\<forall>c. content = Some c \<and> 200 < length c \<longrightarrow> shown_body = take 200 c @ ellipsis) \<and>
         (content = None \<or> content = Some [] \<longrightarrow> shown_body = js ''No content'') \<and>
         (\<forall>t. title = Some t \<and> t \<noteq> [] \<longrightarrow> shown_title = t) \<and>
         (title = None \<or> title = Some [] \<longrightarrow> shown_title = js ''Reminder'')"
proof -
  have perm: "notif_api (st\<lparr>notif_api := Some Granted\<rparr>) = Some Granted"
    by simp
  have "shown_title = titleText title \<and> shown_body = contentText content"
    using shown
    by (auto simp: showPopup_then_sse_body showPopup_then_poll_body
        showPopup_sse_notification [OF perm] remind_poll_notification [OF perm])
  then show ?thesis
    by (auto simp: titleText_def contentText_def)
qed

theorem displayed_texts_witness:
  "p_content (last (pg_body (showPopup_then_sse (js ''7'') None (Some (replicate 201 0x61))
       (Html Complete) (page0 None)))) = replicate 200 0x61 @ ellipsis \<and>
   p_title (last (pg_body (showPopup_then_sse (js ''7'') None (Some (replicate 201 0x61))
       (Html Complete) (page0 None)))) = js ''Reminder''"
proof -
  let ?p = "last (pg_body (showPopup_then_sse (js ''7'') None (Some (replicate 201 0x61))
       (Html Complete) (page0 None)))"
  show ?thesis
    using displayed_texts [of "p_title ?p" "p_content ?p" "js ''7''" None
        "Some (replicate 201 0x61)" "page0 None"]
    by (simp add: Let_def)
qed

subsection \<open>What one reminder makes each script do\<close>

lemma console_log_rest:
  "pg_notifications (console_log s st) = pg_notifications st"
  "notif_api (console_log s st) = notif_api st"
  "pg_body (console_log s st) = pg_body st"
  "pg_requests (console_log s st) = pg_requests st"
  "pg_timers (console_log s st) = pg_timers st"
  "pg_pending (console_log s st) = pg_pending st"
  "pg_fresh (console_log s st) = pg_fresh st"
  by (simp_all add: console_log_def)

lemma remind_sse_requests:
  "pg_requests (remind_sse st r) = pg_requests st @
     [\<lparr>req_method = GET, req_url = js ''partials/popup_partial.html'', req_credentials = None\<rparr>,
      \<lparr>req_method = POST, req_url = js ''/reminded/'' @ r_id r,
        req_credentials = Some (js ''same-origin'')\<rparr>]"
  by (simp add: remind_sse_def showPopup_sse_def effect_defs)

lemma remind_poll_requests:
  "pg_requests (remind_poll st r) = pg_requests st @
     [\<lparr>req_method = GET, req_url = js ''/partials/popup_partial.html'', req_credentials = None\<rparr>,
      \<lparr>req_method = POST, req_url = js ''/reminded/'' @ r_id r, req_credentials = None\<rparr>]"
  by (simp add: remind_poll_def showPopup_poll_def effect_defs)

lemma remind_api:
  "notif_api (remind_sse st r) = notif_api st"
  "notif_api (remind_poll st r) = notif_api st"
  by (simp_all add: remind_sse_def remind_poll_def showPopup_sse_def showPopup_poll_def
      effect_defs)

lemma remind_notifications:
  "pg_notifications (remind_sse st r) = pg_notifications (notify (r_title r) (r_content r) st)"
  "pg_notifications (remind_poll st r) = pg_notifications (notify (r_title r) (r_content r) st)"
  by (simp_all add: remind_sse_def remind_poll_def showPopup_sse_def showPopup_poll_def
      fetch_def fetch_then_def safeFetch_def)

lemma post_requests_remind:
  "post_requests (remind_sse st r) = post_requests st @ [(POST, js ''/reminded/'' @ r_id r)]"
  "post_requests (remind_poll st r) = post_requests st @ [(POST, js ''/reminded/'' @ r_id r)]"
  by (simp_all add: post_requests_def remind_sse_requests remind_poll_requests)

lemma post_requests_foldl_sse:
  "post_requests (foldl remind_sse st rs) =
     post_requests st @ map (\<lambda>r. (POST, js ''/reminded/'' @ r_id r)) rs"
  by (induction rs arbitrary: st) (simp_all add: post_requests_remind)

lemma post_requests_foldl_poll:
  "post_requests (foldl remind_poll st rs) =
     post_requests st @ map (\<lambda>r. (POST, js ''/reminded/'' @ r_id r)) rs"
  by (induction rs arbitrary: st) (simp_all add: post_requests_remind)

lemma post_requests_console: "post_requests (console_log s st) = post_requests st"
  by (simp add: post_requests_def console_log_def)

lemma notifications_foldl:
  "pg_notifications st1 = pg_notifications st2 \<Longrightarrow> notif_api st1 = notif_api st2 \<Longrightarrow>
   pg_notifications (foldl remind_sse st1 rs) = pg_notifications (foldl remind_poll st2 rs)"
proof (induction rs arbitrary: st1 st2)
  case Nil
  then show ?case by simp
next
  case (Cons r rs)
  have "pg_notifications (remind_sse st1 r) = pg_notifications (remind_poll st2 r)"
    using Cons.prems by (simp add: remind_notifications notify_def)
  moreover have "notif_api (remind_sse st1 r) = notif_api (remind_poll st2 r)"
    using Cons.prems by (simp add: remind_api)
  ultimately show ?case
    using Cons.IH by simp
qed

lemma onmessage_reminders:
  "onmessage (Some (reminders_message rs)) st =
     foldl remind_sse (console_log (js ''Received reminders from server:'') st) rs"
  by (simp add: onmessage_def reminders_message_def js_def)

lemma checkForReminders_then_foldl:
  "checkForReminders_then (Some rs) st = foldl remind_poll st rs"
  by (cases rs) (simp_all add: checkForReminders_then_def)

lemma remind_pending:
  "pg_pending (remind_sse st r) = pg_pending st @
     [\<lparr>pd_url = js ''partials/popup_partial.html'', pd_note = r_id r,
       pd_title = r_title r, pd_content = r_content r\<rparr>]"
  "pg_pending (remind_poll st r) = pg_pending st @
     [\<lparr>pd_url = js ''/partials/popup_partial.html'', pd_note = r_id r,
       pd_title = r_title r, pd_content = r_content r\<rparr>]"
  by (simp_all add: remind_sse_def remind_poll_def showPopup_sse_def showPopup_poll_def
      effect_defs)

lemma remind_body:
  "pg_body (remind_sse st r) = pg_body st"
  "pg_body (remind_poll st r) = pg_body st"
  by (simp_all add: remind_sse_def remind_poll_def showPopup_sse_def showPopup_poll_def
      effect_defs)

lemma pending_foldl_sse:
  "pg_pending (foldl remind_sse st rs) = pg_pending st @
     map (\<lambda>r. \<lparr>pd_url = js ''partials/popup_partial.html'', pd_note = r_id r,
               pd_title = r_title r, pd_content = r_content r\<rparr>) rs"
  by (induction rs arbitrary: st) (simp_all add: remind_pending)

lemma pending_foldl_poll:
  "pg_pending (foldl remind_poll st rs) = pg_pending st @
     map (\<lambda>r. \<lparr>pd_url = js ''/partials/popup_partial.html'', pd_note = r_id r,
               pd_title = r_title r, pd_content = r_content r\<rparr>) rs"
  by (induction rs arbitrary: st) (simp_all add: remind_pending)

lemma body_foldl:
  "pg_body (foldl remind_sse st rs) = pg_body st"
  "pg_body (foldl remind_poll st rs) = pg_body st"
  by (induction rs arbitrary: st) (simp_all add: remind_body)

lemma partial_arrives_texts:
  assumes "pd \<in> set (pg_pending st)"
    and "t \<notin> set [No_popup, No_title, No_content]"
  shows "popup_texts (partial_arrives_sse pd (Html t) st) =
           popup_texts st @ [(titleText (pd_title pd), contentText (pd_content pd))]"
    and "popup_texts (partial_arrives_poll pd (Html t) st) =
           popup_texts st @ [(titleText (pd_title pd), contentText (pd_content pd))]"
  using assms
  by (simp_all add: partial_arrives_sse_def partial_arrives_poll_def showPopup_then_sse_def
      showPopup_then_poll_def popup_texts_def console_log_def Let_def)

text \<open>
  C3. On the same list of reminders and the same page, the stream handler and the polling
  callback issue the same POST requests, one \<open>POST /reminded/{id}\<close> per reminder in the
  order of the list, and raise the same browser notifications. Each leaves one fetch of
  the popup partial pending per reminder, carrying that reminder's id, title and content
  (the stream script asks for a relative URL, the polling script for an absolute one).
  When the fetch pending for a reminder of the list is answered with a partial that has
  the popup and its title and content elements, each script appends a popup whose title
  and content texts are those of that reminder, the same in both. On the same answer the
  two callbacks leave the same body.
\<close>

theorem variants_agree:
  "post_requests (onmessage (Some (reminders_message rs)) st) =
     post_requests st @ map (\<lambda>r. (POST, js ''/reminded/'' @ r_id r)) rs \<and>
   post_requests (checkForReminders_then (Some rs) st) =
     post_requests st @ map (\<lambda>r. (POST, js ''/reminded/'' @ r_id r)) rs \<and>
   pg_notifications (onmessage (Some (reminders_message rs)) st) =
     pg_notifications (checkForReminders_then (Some rs) st) \<and>
   pg_body (showPopup_then_sse n title content resp st) =
     pg_body (showPopup_then_poll n title content resp st) \<and>
   pg_pending (onmessage (Some (reminders_message rs)) st) = pg_pending st @
     map (\<lambda>r. \<lparr>pd_url = js ''partials/popup_partial.html'', pd_note = r_id r,
               pd_title = r_title r, pd_content = r_content r\<rparr>) rs \<and>
   pg_pending (checkForReminders_then (Some rs) st) = pg_pending st @
     map (\<lambda>r. \<lparr>pd_url = js ''/partials/popup_partial.html'', pd_note = r_id r,
               pd_title = r_title r, pd_content = r_content r\<rparr>) rs \<and>
   (r \<in> set rs \<and> ts \<notin> set [No_popup, No_title, No_content] \<and>
    tp \<notin> set [No_popup, No_title, No_content] \<longrightarrow>
      popup_texts (partial_arrives_sse
          \<lparr>pd_url = js ''partials/popup_partial.html'', pd_note = r_id r,
            pd_title = r_title r, pd_content = r_content r\<rparr> (Html ts)
          (onmessage (Some (reminders_message rs)) st)) =
        popup_texts st @ [(titleText (r_title r), contentText (r_content r))] \<and>
      popup_texts (partial_arrives_poll
          \<lparr>pd_url = js ''/partials/popup_partial.html'', pd_note = r_id r,
            pd_title = r_title r, pd_content = r_content r\<rparr> (Html tp)
          (checkForReminders_then (Some rs) st)) =
        popup_texts st @ [(titleText (r_title r), contentText (r_content r))])"
proof -
  let ?S = "onmessage (Some (reminders_message rs)) st"
  let ?P = "checkForReminders_then (Some rs) st"
  let ?ds = "\<lparr>pd_url = js ''partials/popup_partial.html'', pd_note = r_id r,
            pd_title = r_title r, pd_content = r_content r\<rparr>"
  let ?dp = "\<lparr>pd_url = js ''/partials/popup_partial.html'', pd_note = r_id r,
            pd_title = r_title r, pd_content = r_content r\<rparr>"
  have notifs: "pg_notifications ?S = pg_notifications ?P"
    unfolding onmessage_reminders checkForReminders_then_foldl
    by (rule notifications_foldl) (simp_all add: console_log_rest)
  have pend_s: "pg_pending ?S = pg_pending st @
     map (\<lambda>r. \<lparr>pd_url = js ''partials/popup_partial.html'', pd_note = r_id r,
               pd_title = r_title r, pd_content = r_content r\<rparr>) rs"
    by (simp add: onmessage_reminders pending_foldl_sse console_log_rest)
  have pend_p: "pg_pending ?P = pg_pending st @
     map (\<lambda>r. \<lparr>pd_url = js ''/partials/popup_partial.html'', pd_note = r_id r,
               pd_title = r_title r, pd_content = r_content r\<rparr>) rs"
    by (simp add: checkForReminders_then_foldl pending_foldl_poll)
  have texts: "popup_texts ?S = popup_texts st" "popup_texts ?P = popup_texts st"
    by (simp_all add: popup_texts_def onmessage_reminders checkForReminders_then_foldl
        body_foldl console_log_rest)
  have shown: "popup_texts (partial_arrives_sse ?ds (Html ts) ?S) =
        popup_texts st @ [(titleText (r_title r), contentText (r_content r))] \<and>
      popup_texts (partial_arrives_poll ?dp (Html tp) ?P) =
        popup_texts st @ [(titleText (r_title r), contentText (r_content r))]"
    if r: "r \<in> set rs" and ts: "ts \<notin> set [No_popup, No_title, No_content]"
      and tp: "tp \<notin> set [No_popup, No_title, No_content]"
  proof -
    have "?ds \<in> set (pg_pending ?S)" "?dp \<in> set (pg_pending ?P)"
      using r by (auto simp: pend_s pend_p)
    then show ?thesis
      using partial_arrives_texts(1) [OF _ ts, of ?ds ?S]
        partial_arrives_texts(2) [OF _ tp, of ?dp ?P]
      by (simp add: texts)
  qed
  have posts: "post_requests ?S =
       post_requests st @ map (\<lambda>r. (POST, js ''/reminded/'' @ r_id r)) rs"
     "post_requests ?P =
       post_requests st @ map (\<lambda>r. (POST, js ''/reminded/'' @ r_id r)) rs"
    by (simp_all add: onmessage_reminders checkForReminders_then_foldl post_requests_foldl_sse
        post_requests_foldl_poll post_requests_console)
  have cb: "pg_body (showPopup_then_sse n title content resp st) =
     pg_body (showPopup_then_poll n title content resp st)"
    by (simp add: showPopup_then_sse_def showPopup_then_poll_def)
  show ?thesis
    using posts notifs cb pend_s pend_p shown by blast
qed

theorem variants_agree_witness:
  "popup_texts (partial_arrives_poll
      \<lparr>pd_url = js ''/partials/popup_partial.html'', pd_note = js ''7'',
        pd_title = None, pd_content = None\<rparr> (Html Complete)
      (checkForReminders_then
         (Some [\<lparr>r_id = js ''7'', r_title = None, r_content = None\<rparr>]) (page0 None))) =
   [(js ''Reminder'', js ''No content'')]"
  using variants_agree [of "[\<lparr>r_id = js ''7'', r_title = None, r_content = None\<rparr>]"
      "page0 None" "[]" None None Rejected
      "\<lparr>r_id = js ''7'', r_title = None, r_content = None\<rparr>" Complete Complete]
  by (simp add: popup_texts_def page0_def titleText_def contentText_def)

text \<open>
  C9. A stream message of type \<open>connected\<close>, \<open>heartbeat\<close> or \<open>error\<close> changes nothing
  but the console: the body, the requests, the notifications and the timers stay as they
  were. Whenever the handler changes anything besides the console, the message was of
  type \<open>reminders\<close>; such a message sends one \<open>POST /reminded/{id}\<close> per reminder.
\<close>

theorem onmessage_frame:
  "(m_type m = Some (js ''connected'') \<or> m_type m = Some (js ''heartbeat'') \<or>
    m_type m = Some (js ''error'') \<longrightarrow>
      (onmessage (Some m) st)\<lparr>pg_console := []\<rparr> = st\<lparr>pg_console := []\<rparr>) \<and>
   ((onmessage ev st)\<lparr>pg_console := []\<rparr> \<noteq> st\<lparr>pg_console := []\<rparr> \<longrightarrow>
      (\<exists>m'. ev = Some m' \<and> m_type m' = Some (js ''reminders''))) \<and>
   post_requests (onmessage (Some (reminders_message rs)) st) =
     post_requests st @ map (\<lambda>r. (POST, js ''/reminded/'' @ r_id r)) rs"
proof -
  have "(onmessage ev st)\<lparr>pg_console := []\<rparr> \<noteq> st\<lparr>pg_console := []\<rparr> \<longrightarrow>
      (\<exists>m'. ev = Some m' \<and> m_type m' = Some (js ''reminders''))"
    by (cases ev) (auto simp: onmessage_def console_log_def)
  moreover have "m_type m = Some (js ''connected'') \<or> m_type m = Some (js ''heartbeat'') \<or>
    m_type m = Some (js ''error'') \<longrightarrow>
      (onmessage (Some m) st)\<lparr>pg_console := []\<rparr> = st\<lparr>pg_console := []\<rparr>"
    by (auto simp: onmessage_def console_log_def js_def)
  ultimately show ?thesis
    by (simp add: onmessage_reminders post_requests_foldl_sse post_requests_console)
qed

theorem onmessage_frame_witness:
  "(onmessage (Some \<lparr>m_type = Some (js ''heartbeat''), m_data = None\<rparr>) (page0 None))
      \<lparr>pg_console := []\<rparr> = page0 None"
  using onmessage_frame [of "\<lparr>m_type = Some (js ''heartbeat''), m_data = None\<rparr>" "page0 None"]
  by (simp add: page0_def)


subsection \<open>Acknowledgments\<close>

lemma acks_remind:
  "acks i (remind_sse st r) = acks i st + (if r_id r = i then 1 else 0)"
  "acks i (remind_poll st r) = acks i st + (if r_id r = i then 1 else 0)"
  by (simp_all add: acks_def remind_sse_requests remind_poll_requests)

lemma acks_foldl_sse:
  "acks i (foldl remind_sse st rs) = acks i st + count_list (map r_id rs) i"
  by (induction rs arbitrary: st) (simp_all add: acks_remind)

lemma acks_foldl_poll:
  "acks i (foldl remind_poll st rs) = acks i st + count_list (map r_id rs) i"
  by (induction rs arbitrary: st) (simp_all add: acks_remind)

lemma acks_console: "acks i (console_log s st) = acks i st"
  by (simp add: acks_def console_log_def)

lemma acks_fetch:
  "acks i (fetch (js ''/reminded/'' @ j) POST st) = acks i st + (if j = i then 1 else 0)"
  "acks i (safeFetch (js ''/reminded/'' @ j) POST st) = acks i st + (if j = i then 1 else 0)"
  by (simp_all add: acks_def fetch_def safeFetch_def)

lemma acks_closePopup: "acks i (closePopup h st) = acks i st"
  by (simp add: acks_def closePopup_def)

text \<open>
  C1, as stated, fails: the stream handler acknowledges reminder 7 on receipt, and the
  dismiss handler of the popup shown for that reminder acknowledges it a second time.
\<close>

theorem acknowledged_twice:
  "pg_requests (dismiss_sse 0 (showPopup_then_sse (js ''7'') None None (Html Complete)
      (onmessage
         (Some (reminders_message [\<lparr>r_id = js ''7'', r_title = None, r_content = None\<rparr>]))
         (page0 None)))) =
   [\<lparr>req_method = GET, req_url = js ''partials/popup_partial.html'', req_credentials = None\<rparr>,
    \<lparr>req_method = POST, req_url = js ''/reminded/7'',
      req_credentials = Some (js ''same-origin'')\<rparr>,
    \<lparr>req_method = POST, req_url = js ''/reminded/7'',
      req_credentials = Some (js ''same-origin'')\<rparr>]"
  by (simp add: onmessage_reminders remind_sse_def showPopup_sse_def showPopup_then_sse_def
      dismiss_sse_def effect_defs page0_def Let_def js_def)

text \<open>
  C1, amended. On receipt each script issues \<open>POST /reminded/{id}\<close> exactly once for each
  reminder of the delivered list. The handlers of the popup issue it again: the dismiss
  handler once per click, and the mark-done handler once after its \<open>POST /done/{id}\<close> has
  succeeded (stream) or been answered (polling).
\<close>

theorem acknowledgment_counts:
  "acks i (onmessage (Some (reminders_message rs)) st) = acks i st + count_list (map r_id rs) i \<and>
   acks i (checkForReminders_then (Some rs) st) = acks i st + count_list (map r_id rs) i \<and>
   (find (\<lambda>p. p_handle p = h) (pg_body st) = Some p \<and> p_dismiss p \<longrightarrow>
      acks (p_note p) (dismiss_sse h st) = Suc (acks (p_note p) st) \<and>
      acks (p_note p) (dismiss_poll h st) = Suc (acks (p_note p) st)) \<and>
   acks i (mark_done_settled_sse i h True st) = Suc (acks i st) \<and>
   acks i (mark_done_settled_poll i h True st) = Suc (acks i st)"
  by (simp add: onmessage_reminders checkForReminders_then_foldl acks_foldl_sse acks_foldl_poll
      acks_console dismiss_sse_def dismiss_poll_def mark_done_settled_sse_def
      mark_done_settled_poll_def acks_fetch acks_closePopup)

theorem acknowledgment_counts_witness:
  "acks (js ''7'')
     (dismiss_sse 0 (showPopup_then_sse (js ''7'') None None (Html Complete) (page0 None))) =
   Suc (acks (js ''7'') (showPopup_then_sse (js ''7'') None None (Html Complete) (page0 None)))"
  using acknowledgment_counts [of "js ''7''" "[]"
      "showPopup_then_sse (js ''7'') None None (Html Complete) (page0 None)" 0
      "\<lparr>p_handle = 0, p_note = js ''7'', p_title = titleText None,
        p_content = contentText None, p_dismiss = True, p_mark_done = True\<rparr>"]
  by (simp add: showPopup_then_sse_body page0_def)

subsection \<open>The auto-close timer\<close>

lemma find_snoc:
  "find P (xs @ [x]) =
     (case find P xs of Some y \<Rightarrow> Some y | None \<Rightarrow> if P x then Some x else None)"
  by (induction xs) simp_all

lemma find_fresh:
  "list_all (\<lambda>p. p_handle p < f) ps \<Longrightarrow> find (\<lambda>p. p_handle p = f) ps = None"
  by (induction ps) auto

lemma filter_fresh:
  "list_all (\<lambda>p. p_handle p < f) ps \<Longrightarrow> filter (\<lambda>p. p_handle p \<noteq> f) ps = ps"
  by (induction ps) auto

lemma remove1_fresh:
  "list_all (\<lambda>t. t_popup t < f) ts \<Longrightarrow>
   remove1 \<lparr>t_delay = d, t_popup = f\<rparr> (ts @ [\<lparr>t_delay = d, t_popup = f\<rparr>]) = ts"
  by (induction ts) auto

lemma timer_fires_closed:
  "filter (\<lambda>p. p_handle p \<noteq> t_popup tm) (pg_body st) = pg_body st \<Longrightarrow>
   timer_fires tm st = st\<lparr>pg_timers := remove1 tm (pg_timers st)\<rparr>"
  by (simp add: timer_fires_def closePopup_def)

lemma shown_sse:
  "showPopup_then_sse n title content (Html Complete) st =
     st\<lparr>pg_body := pg_body st @ [\<lparr>p_handle = pg_fresh st, p_note = n, p_title = titleText title,
                    p_content = contentText content, p_dismiss = True, p_mark_done = True\<rparr>],
        pg_fresh := Suc (pg_fresh st),
        pg_timers := pg_timers st @ [\<lparr>t_delay = 120000, t_popup = pg_fresh st\<rparr>]\<rparr>"
  by (simp add: showPopup_then_sse_def Let_def)

lemma shown_poll:
  "showPopup_then_poll n title content (Html Complete) st =
     showPopup_then_sse n title content (Html Complete) st"
  by (simp add: showPopup_then_sse_def showPopup_then_poll_def)

lemma handles_fresh_page0: "handles_fresh (page0 perm)"
  by (simp add: handles_fresh_def page0_def)

lemma handles_fresh_shown:
  assumes "handles_fresh st"
  shows "handles_fresh (showPopup_then_sse n title content resp st)"
    and "handles_fresh (showPopup_then_poll n title content resp st)"
proof -
  have weaken: "list_all (\<lambda>p. p_handle p < Suc (pg_fresh st)) (pg_body st)"
      "list_all (\<lambda>t. t_popup t < Suc (pg_fresh st)) (pg_timers st)"
    using assms by (auto simp: handles_fresh_def list_all_iff less_Suc_eq)
  show "handles_fresh (showPopup_then_sse n title content resp st)"
    using assms weaken
    by (auto simp: handles_fresh_def showPopup_then_sse_def console_log_def Let_def
        split: fetched.splits)
  show "handles_fresh (showPopup_then_poll n title content resp st)"
    using assms weaken
    by (auto simp: handles_fresh_def showPopup_then_poll_def console_log_def Let_def
        split: fetched.splits)
qed

lemma handles_fresh_closed:
  assumes "handles_fresh st"
  shows "handles_fresh (closePopup h st)" and "handles_fresh (timer_fires t st)"
  using assms
  by (auto simp: handles_fresh_def closePopup_def timer_fires_def list_all_iff
      dest: notin_set_remove1)

text \<open>
  C2, as stated, fails: after the popup has been shown and dismissed, its two-minute timer
  is still pending and the body holds no popup.
\<close>

theorem timer_outlives_popup:
  "pg_timers (dismiss_sse 0 (showPopup_then_sse (js ''7'') None None (Html Complete) (page0 None)))
     = [\<lparr>t_delay = 120000, t_popup = 0\<rparr>] \<and>
   pg_body (dismiss_sse 0 (showPopup_then_sse (js ''7'') None None (Html Complete) (page0 None)))
     = []"
  by (simp add: showPopup_then_sse_def dismiss_sse_def effect_defs page0_def Let_def)

text \<open>
  C2, amended. The two-minute timer of a popup is never cancelled. When the dismiss handler
  or the mark-done chain closes the popup first, in either script, the timer stays pending;
  when it then fires it changes nothing on the page, and it is pending no longer.
\<close>

theorem auto_close_timer:
  assumes fresh: "handles_fresh st"
    and shown: "st1 \<in> set [showPopup_then_sse n title content (Html Complete) st,
                           showPopup_then_poll n title content (Html Complete) st]"
    and closed: "st2 \<in> set [dismiss_sse (pg_fresh st) st1, dismiss_poll (pg_fresh st) st1,
                            mark_done_settled_sse n (pg_fresh st) False st1,
                            mark_done_settled_poll n (pg_fresh st) False st1,
                            mark_done_finally_sse (pg_fresh st) ok st1,
                            mark_done_finally_poll (pg_fresh st) ok st1]"
  shows "pg_body st2 = pg_body st \<and>
         pg_timers st2 = pg_timers st @ [\<lparr>t_delay = 120000, t_popup = pg_fresh st\<rparr>] \<and>
         timer_fires \<lparr>t_delay = 120000, t_popup = pg_fresh st\<rparr> st2 =
           st2\<lparr>pg_timers := pg_timers st\<rparr>"
proof -
  let ?h = "pg_fresh st"
  let ?tm = "\<lparr>t_delay = 120000, t_popup = ?h\<rparr>"
  have b: "list_all (\<lambda>p. p_handle p < ?h) (pg_body st)"
    and t: "list_all (\<lambda>t. t_popup t < ?h) (pg_timers st)"
    using fresh by (simp_all add: handles_fresh_def)
  have st1: "st1 = showPopup_then_sse n title content (Html Complete) st"
    using shown by (auto simp: shown_poll)
  have body: "pg_body st2 = pg_body st"
    using closed
    by (auto simp: st1 shown_sse dismiss_sse_def dismiss_poll_def mark_done_finally_sse_def
        mark_done_finally_poll_def mark_done_settled_sse_def mark_done_settled_poll_def
        effect_defs find_snoc find_fresh [OF b] filter_fresh [OF b])
  have timers: "pg_timers st2 = pg_timers st @ [?tm]"
    using closed
    by (auto simp: st1 shown_sse dismiss_sse_def dismiss_poll_def mark_done_finally_sse_def
        mark_done_finally_poll_def mark_done_settled_sse_def mark_done_settled_poll_def
        effect_defs find_snoc find_fresh [OF b])
  have "timer_fires ?tm st2 = st2\<lparr>pg_timers := remove1 ?tm (pg_timers st2)\<rparr>"
    by (rule timer_fires_closed) (simp add: body filter_fresh [OF b])
  then show ?thesis
    by (simp add: body timers remove1_fresh [OF t])
qed

theorem auto_close_timer_witness:
  "timer_fires \<lparr>t_delay = 120000, t_popup = 0\<rparr>
     (dismiss_sse 0 (showPopup_then_sse (js ''7'') None None (Html Complete) (page0 None))) =
   (dismiss_sse 0 (showPopup_then_sse (js ''7'') None None (Html Complete) (page0 None)))
     \<lparr>pg_timers := []\<rparr>"
proof -
  have fresh: "handles_fresh (page0 None)"
    by (simp add: handles_fresh_def page0_def)
  show ?thesis
    using auto_close_timer [OF fresh, of
        "showPopup_then_sse (js ''7'') None None (Html Complete) (page0 None)"
        "js ''7''" None None
        "dismiss_sse 0 (showPopup_then_sse (js ''7'') None None (Html Complete) (page0 None))"]
    by (simp add: page0_def)
qed

section \<open>Properties of the themes\<close>

lemma themes_get_order:
  "themes_get (js ''matrix'') =
     Own \<lparr>te_desktop = js ''/static/style2.css'', te_mobile = js ''/static/style2_mobile.css''\<rparr>"
  "themes_get (js ''light'') =
     Own \<lparr>te_desktop = js ''/static/style3.css'', te_mobile = js ''/static/style3_mobile.css''\<rparr>"
  by (simp_all add: themes_get_def themes_def js_def)

lemma themeOrder_next:
  "themeOrder ! nat ((indexOf themeOrder c + 1) mod int (length themeOrder)) =
     (if c = js ''matrix'' then js ''light'' else js ''matrix'')"
  by (simp add: themeOrder_def js_def Let_def)

lemma theme_click_current:
  "currentTheme (theme_click m st) =
     (if currentTheme st = js ''matrix'' then js ''light'' else js ''matrix'')"
  unfolding theme_click_def Let_def themeOrder_next
  by (simp add: applyTheme_def Let_def)

lemma theme_click_stored:
  "localStorage (theme_click m st) (js ''themeName'') = Some (currentTheme (theme_click m st))"
  unfolding theme_click_def Let_def themeOrder_next
  by (simp add: applyTheme_def Let_def themes_get_order)

lemma applyTheme_name_nonempty:
  "(if themes_get name0 = Undefined then js ''matrix'' else name0) \<noteq> []"
  by (simp add: themes_get_def themes_def object_prototype_def js_def)

lemma reload_after_apply:
  "initTheme_multi (Some href0) True m' (localStorage (applyTheme m name0 st)) =
     Some ((applyTheme m' name0 st)
       \<lparr>currentTheme := (if themes_get name0 = Undefined then js ''matrix'' else name0)\<rparr>)"
  using applyTheme_name_nonempty [of name0]
  by (auto simp: initTheme_multi_def applyTheme_def Let_def themes_get_order)

lemma reload_after_click:
  "initTheme_multi (Some href0) True m' (localStorage (theme_click m st)) =
     Some (theme_click m' st)"
  unfolding theme_click_def Let_def themeOrder_next
  by (simp add: reload_after_apply themes_get_order) (simp add: applyTheme_def Let_def)

lemma dark_click_stored:
  "dk_storage (dark_click d) (js ''theme'') =
     Some (if js ''dark-theme'' \<in> set (body_classes (dark_click d))
           then js ''dark'' else js ''light'')"
  by (simp add: dark_click_def Let_def)

lemma dark_load_storage: "dk_storage (dark_load html store) = store"
  by (simp add: dark_load_def initTheme_dark_def)

lemma dark_roundtrip:
  "js ''dark-theme'' \<notin> set html \<Longrightarrow>
   (js ''dark-theme'' \<in> set (body_classes (dark_load html (dk_storage (dark_click st))))) =
   (js ''dark-theme'' \<in> set (body_classes (dark_click st)))"
  by (simp add: dark_load_def initTheme_dark_def dark_click_def Let_def classList_add_def
      classList_toggle_def classList_remove_def js_def)

text \<open>
  C7. Multi-theme variant: \<open>applyTheme\<close> stores under \<open>themeName\<close> the name of the theme
  it applies, the click handler stores the theme it has just selected, and a page load
  from that storage ends with that name as current theme, that name stored and its
  stylesheet linked; after a click the reloaded page is the page the click left, up to the
  device class of the moment. Dark-toggle variant: a click stores "dark" or "light" under
  \<open>theme\<close> according to the class it leaves on the body, and a load of a document whose
  body is served without the class \<open>dark-theme\<close> ends with the class present exactly when it
  was present after the click, the storage untouched.
\<close>

theorem theme_persisted:
  "localStorage (applyTheme m name0 st) (js ''themeName'') =
     Some (if themes_get name0 = Undefined then js ''matrix'' else name0) \<and>
   initTheme_multi (Some href0) True m' (localStorage (applyTheme m name0 st)) =
     Some ((applyTheme m' name0 st)
       \<lparr>currentTheme := (if themes_get name0 = Undefined then js ''matrix'' else name0)\<rparr>) \<and>
   localStorage (theme_click m st) (js ''themeName'') = Some (currentTheme (theme_click m st)) \<and>
   initTheme_multi (Some href0) True m' (localStorage (theme_click m st)) =
     Some (theme_click m' st) \<and>
   dk_storage (dark_click d) (js ''theme'') =
     Some (if js ''dark-theme'' \<in> set (body_classes (dark_click d))
           then js ''dark'' else js ''light'') \<and>
   (js ''dark-theme'' \<notin> set html \<longrightarrow>
      (js ''dark-theme'' \<in> set (body_classes (dark_load html (dk_storage (dark_click d))))) =
      (js ''dark-theme'' \<in> set (body_classes (dark_click d))) \<and>
      dk_storage (dark_load html (dk_storage (dark_click d))) = dk_storage (dark_click d))"
proof -
  have "localStorage (applyTheme m name0 st) (js ''themeName'') =
     Some (if themes_get name0 = Undefined then js ''matrix'' else name0)"
    by (simp add: applyTheme_def Let_def)
  moreover have "js ''dark-theme'' \<notin> set html \<longrightarrow>
      (js ''dark-theme'' \<in> set (body_classes (dark_load html (dk_storage (dark_click d))))) =
      (js ''dark-theme'' \<in> set (body_classes (dark_click d)))"
    using dark_roundtrip [of html d] by blast
  ultimately show ?thesis
    by (simp only: reload_after_apply reload_after_click theme_click_stored dark_click_stored
        dark_load_storage simp_thms)
qed

theorem theme_persisted_witness:
  "js ''dark-theme'' \<in> set (body_classes (dark_load [] (dk_storage (dark_click dark0))))"
  using theme_persisted [of False "js ''light''" theme0 "[]" False dark0 "[]"]
  by (simp add: dark0_def dark_click_def classList_toggle_def)

lemma theme_click_in_order:
  "currentTheme (theme_click m st) \<in> set themeOrder"
  "currentTheme (theme_click m st) \<noteq> js ''default''"
  "currentTheme (theme_click m st) \<in> set (map fst themes)"
  by (simp_all add: theme_click_current themeOrder_def themes_def js_def)

lemma theme_click_twice:
  "currentTheme st \<in> set themeOrder \<Longrightarrow>
   currentTheme (theme_click m2 (theme_click m st)) = currentTheme st"
  by (auto simp: theme_click_current themeOrder_def js_def)

text \<open>
  C8. After a click of the theme switch the current theme is one of the cycle order, it is
  not "default", it is the name stored under \<open>themeName\<close>, and it is a key of the theme
  table; from a theme of the cycle order two clicks lead back to it.
\<close>

theorem theme_cycle:
  "currentTheme (theme_click m st) \<in> set themeOrder \<and>
   currentTheme (theme_click m st) \<noteq> js ''default'' \<and>
   localStorage (theme_click m st) (js ''themeName'') = Some (currentTheme (theme_click m st)) \<and>
   currentTheme (theme_click m st) \<in> set (map fst themes) \<and>
   (currentTheme st \<in> set themeOrder \<longrightarrow>
      currentTheme (theme_click m2 (theme_click m st)) = currentTheme st)"
  using theme_click_in_order [of m st] theme_click_stored [of m st] theme_click_twice [of st m2 m]
  by blast

theorem theme_cycle_witness:
  "currentTheme (theme_click False (theme_click False theme0)) = js ''matrix''"
  using theme_cycle [of False theme0 False]
  by (simp add: theme0_def themeOrder_def)

section \<open>Properties of the view toggle\<close>

text \<open>
  C10. After \<open>switchView\<close>, from any state, one container has display "block" and the
  other "none"; the label of the button is the text for the view whose container is hidden;
  and when the page has a search input the handler ends normally with the input's value
  empty.
\<close>

theorem switchView_exclusive:
  "((active_display (state_of (switchView a c st)) = js ''block'' \<and>
     completed_display (state_of (switchView a c st)) = js ''none'') \<or>
    (active_display (state_of (switchView a c st)) = js ''none'' \<and>
     completed_display (state_of (switchView a c st)) = js ''block'')) \<and>
   (active_display (state_of (switchView a c st)) = js ''none'' \<longrightarrow>
      toggle_text (state_of (switchView a c st)) = textContent_of a) \<and>
   (completed_display (state_of (switchView a c st)) = js ''none'' \<longrightarrow>
      toggle_text (state_of (switchView a c st)) = textContent_of c) \<and>
   (search_value st \<noteq> None \<longrightarrow>
      switchView a c st = Normal (state_of (switchView a c st)) \<and>
      search_value (state_of (switchView a c st)) = Some [])"
  by (auto simp: switchView_def Let_def js_def split: option.splits)

theorem switchView_exclusive_witness:
  "search_value (state_of (switchView None None toggle0)) = Some []"
  using switchView_exclusive [of None None toggle0]
  by (simp add: toggle0_def)

section \<open>Properties of the uploads\<close>

text \<open>
  C6. \<open>uploadFile\<close> puts the class \<open>uploading\<close> on the zone before it sends the request,
  the class is there once the request is sent, and however the two awaits end the zone is
  without the class when the function is done.
\<close>

theorem uploading_class:
  "js ''uploading'' \<in> set (zn_classes (uploadFile_enter st)) \<and>
   zn_requests (uploadFile_enter st) = zn_requests st \<and>
   zn_requests (uploadFile_start n f st) =
     zn_requests st @ [\<lparr>up_url = js ''/upload_file/'' @ n, up_files = [f]\<rparr>] \<and>
   js ''uploading'' \<in> set (zn_classes (uploadFile_start n f st)) \<and>
   js ''uploading'' \<notin> set (zn_classes (uploadFile_settle outcome st'))"
  by (simp add: uploadFile_enter_def uploadFile_start_def uploadFile_fetch_def
      uploadFile_settle_def uploadFile_finally_def classList_add_def classList_remove_def)

lemmas progress_defs = set_progress_def set_width_def set_text_def set_display_def

lemma handleFiles_started:
  assumes "files \<noteq> []" and "ap_progress st n = Some pc"
    and "pr_fill pc \<noteq> None" and "pr_text pc \<noteq> None"
  shows "handleFiles files n st =
     Normal (st\<lparr>ap_progress := (ap_progress st)(n \<mapsto>
                  \<lparr>pr_display = js ''block'', pr_fill = Some (js ''0%''),
                    pr_text = Some (js ''Uploading...'')\<rparr>),
               ap_requests := ap_requests st @
                  [\<lparr>up_url = js ''/upload_file/'' @ n, up_files = files\<rparr>]\<rparr>)"
  using assms
  by (cases pc) (auto simp: handleFiles_def progress_defs Let_def)

lemma handleFiles_catch_effect:
  assumes "ap_progress st n = Some pc" and "pr_fill pc \<noteq> None" and "pr_text pc \<noteq> None"
  shows "ap_progress (handleFiles_catch n st) n =
           Some \<lparr>pr_display = pr_display pc, pr_fill = Some (js ''0%''),
                 pr_text = Some (js ''Upload failed. Please try again.'')\<rparr>"
    and "ap_attached (handleFiles_catch n st) = ap_attached st"
    and "ap_timers (handleFiles_catch n st) = ap_timers st @ [\<lparr>ht_delay = 3000, ht_note = n\<rparr>]"
    and "ap_requests (handleFiles_catch n st) = ap_requests st"
  using assms
  by (cases pc; auto simp: handleFiles_catch_def progress_defs Let_def)+

lemma handleFiles_then_ok:
  assumes "ap_progress st n = Some pc" and "pr_fill pc \<noteq> None" and "pr_text pc \<noteq> None"
    and "ap_attached st n = Some items" and "ud_ok data"
  shows "ap_progress (handleFiles_then n (Json data) st) n =
           Some \<lparr>pr_display = pr_display pc, pr_fill = Some (js ''100%''),
                 pr_text = Some (js ''Upload complete!'')\<rparr>"
    and "ap_attached (handleFiles_then n (Json data) st) n =
           Some (items @ [\<lparr>fi_file_id = ud_file_id data, fi_name = ud_filename data,
                           fi_href = js ''/download_file/'' @ ud_file_id data\<rparr>])"
    and "ap_timers (handleFiles_then n (Json data) st) =
           ap_timers st @ [\<lparr>ht_delay = 1500, ht_note = n\<rparr>]"
  using assms
  by (cases pc; auto simp: handleFiles_then_def progress_defs Let_def)+

lemma handleFiles_then_failed:
  assumes "resp = Failed \<or> (\<exists>d. resp = Json d \<and> \<not> ud_ok d)"
  shows "handleFiles_then n resp st = handleFiles_catch n st"
  using assms by (auto simp: handleFiles_then_def)

lemma hide_fires_display:
  assumes "ap_progress st n = Some pc"
  shows "ap_progress (hide_fires \<lparr>ht_delay = d, ht_note = n\<rparr> st) n =
           Some (pc\<lparr>pr_display := js ''none''\<rparr>)"
  using assms by (simp add: hide_fires_def progress_defs)

text \<open>
  C5. On a page that has the progress container of the note with its bar and its text, and
  the container of attached files, \<open>handleFiles\<close> with a non-empty list shows the progress
  and sends the files. A response with \<open>ok\<close> sets the bar to 100%, the text to "Upload
  complete!" and appends one item with the returned file id and name; a response without
  \<open>ok\<close>, or a failed request, sets the bar to 0% and the text to "Upload failed. Please try
  again." and appends nothing. Either way one timer is left pending whose firing hides the
  progress container. With an empty list \<open>handleFiles\<close> changes nothing.
\<close>

theorem attachment_upload:
  assumes files: "files \<noteq> []"
    and pc: "ap_progress st n = Some pc"
    and fill: "pr_fill pc \<noteq> None"
    and label: "pr_text pc \<noteq> None"
    and att: "ap_attached st n = Some items"
    and st1: "st1 = state_of (handleFiles files n st)"
    and ok: "ud_ok data"
    and bad: "resp = Failed \<or> (\<exists>d. resp = Json d \<and> \<not> ud_ok d)"
  shows "handleFiles files n st = Normal st1 \<and>
    ap_requests st1 = ap_requests st @ [\<lparr>up_url = js ''/upload_file/'' @ n, up_files = files\<rparr>] \<and>
    ap_progress (handleFiles_then n (Json data) st1) n =
      Some \<lparr>pr_display = js ''block'', pr_fill = Some (js ''100%''),
            pr_text = Some (js ''Upload complete!'')\<rparr> \<and>
    ap_attached (handleFiles_then n (Json data) st1) n =
      Some (items @ [\<lparr>fi_file_id = ud_file_id data, fi_name = ud_filename data,
                      fi_href = js ''/download_file/'' @ ud_file_id data\<rparr>]) \<and>
    ap_timers (handleFiles_then n (Json data) st1) =
      ap_timers st @ [\<lparr>ht_delay = 1500, ht_note = n\<rparr>] \<and>
    map_option pr_display (ap_progress
        (hide_fires \<lparr>ht_delay = 1500, ht_note = n\<rparr> (handleFiles_then n (Json data) st1)) n) =
      Some (js ''none'') \<and>
    ap_progress (handleFiles_then n resp st1) n =
      Some \<lparr>pr_display = js ''block'', pr_fill = Some (js ''0%''),
            pr_text = Some (js ''Upload failed. Please try again.'')\<rparr> \<and>
    ap_attached (handleFiles_then n resp st1) n = Some items \<and>
    ap_timers (handleFiles_then n resp st1) =
      ap_timers st @ [\<lparr>ht_delay = 3000, ht_note = n\<rparr>] \<and>
    map_option pr_display (ap_progress
        (hide_fires \<lparr>ht_delay = 3000, ht_note = n\<rparr> (handleFiles_then n resp st1)) n) =
      Some (js ''none'') \<and>
    handleFiles [] n st = Normal st"
proof -
  let ?shown = "\<lparr>pr_display = js ''block'', pr_fill = Some (js ''0%''),
                 pr_text = Some (js ''Uploading...'')\<rparr>"
  have started: "handleFiles files n st =
      Normal (st\<lparr>ap_progress := (ap_progress st)(n \<mapsto> ?shown),
                ap_requests := ap_requests st @
                  [\<lparr>up_url = js ''/upload_file/'' @ n, up_files = files\<rparr>]\<rparr>)"
    by (rule handleFiles_started [OF files pc fill label])
  have p1: "ap_progress st1 n = Some ?shown"
    and a1: "ap_attached st1 n = Some items"
    and t1: "ap_timers st1 = ap_timers st"
    and r1: "ap_requests st1 =
        ap_requests st @ [\<lparr>up_url = js ''/upload_file/'' @ n, up_files = files\<rparr>]"
    by (simp_all add: st1 started att)
  have f1: "pr_fill ?shown \<noteq> None" and x1: "pr_text ?shown \<noteq> None"
    by simp_all
  note good = handleFiles_then_ok [OF p1 f1 x1 a1 ok]
  have failed: "handleFiles_then n resp st1 = handleFiles_catch n st1"
    by (rule handleFiles_then_failed [OF bad])
  note caught = handleFiles_catch_effect [OF p1 f1 x1]
  have "handleFiles [] n st = Normal st"
    by (simp add: handleFiles_def)
  moreover have "handleFiles files n st = Normal st1"
    by (simp add: st1 started)
  ultimately show ?thesis
    by (simp add: r1 good failed caught a1 t1 hide_fires_display [OF good(1)]
        hide_fires_display [OF caught(1)])
qed

theorem attachment_upload_witness:
  "ap_attached
     (handleFiles_then (js ''5'')
        (Json \<lparr>ud_ok = True, ud_file_id = js ''9'', ud_filename = js ''a.txt''\<rparr>)
        (state_of (handleFiles [js ''a.txt''] (js ''5'') attach0))) (js ''5'') =
   Some [\<lparr>fi_file_id = js ''9'', fi_name = js ''a.txt'',
          fi_href = js ''/download_file/'' @ js ''9''\<rparr>] \<and>
   ap_progress
     (handleFiles_then (js ''5'') Failed
        (state_of (handleFiles [js ''a.txt''] (js ''5'') attach0))) (js ''5'') =
   Some \<lparr>pr_display = js ''block'', pr_fill = Some (js ''0%''),
         pr_text = Some (js ''Upload failed. Please try again.'')\<rparr>"
proof -
  have pc: "ap_progress attach0 (js ''5'') =
      Some \<lparr>pr_display = js ''none'', pr_fill = Some [], pr_text = Some []\<rparr>"
    and att: "ap_attached attach0 (js ''5'') = Some []"
    by (simp_all add: attach0_def)
  show ?thesis
    using attachment_upload [OF _ pc _ _ att refl, where files = "[js ''a.txt'']"
        and data = "\<lparr>ud_ok = True, ud_file_id = js ''9'', ud_filename = js ''a.txt''\<rparr>"
        and resp = Failed]
    by simp
qed

end
